theory Spec2Isabelle
  imports Complex_Main "HOL-Library.Sublist"
begin

section \<open>Pilot-oriented weather summaries: the OpenAI summary service\<close>

text \<open>
  A shallow embedding of \<^verbatim>\<open>backend/app/services/openai_service.py\<close>: the class
  \<^verbatim>\<open>OpenAISummaryService\<close> with its constructor, \<^verbatim>\<open>generate_summary\<close> and the three
  template builders \<^verbatim>\<open>_generate_fallback_summary\<close>, \<^verbatim>\<open>_get_system_prompt\<close> and
  \<^verbatim>\<open>_create_prompt_for_report\<close>.
\<close>

subsection \<open>Python strings\<close>

text \<open>
  A Python \<^verbatim>\<open>str\<close> is a sequence of Unicode code points, so it is a list of natural
  numbers here. Every string literal of the module is ASCII; \<open>ascii\<close> turns such a literal
  into the list of its code points.
\<close>

type_synonym pystr = "nat list"

definition ascii :: "string \<Rightarrow> pystr" where
  "ascii s = map of_char s"

subsection \<open>Report data: a dictionary from field names to Python values\<close>

text \<open>
  \<^verbatim>\<open>report_data: Dict[str, Any]\<close> is a flat mapping. Its values are the scalar values
  a decoded report carries: \<^verbatim>\<open>None\<close>, booleans, integers and strings. The dictionary is an
  association list in insertion order (the order \<^verbatim>\<open>repr\<close> prints), looked up with
  \<^const>\<open>map_of\<close>.
\<close>

datatype pyval = PyNone | PyBool bool | PyInt int | PyStr pystr

type_synonym report_data = "(pystr \<times> pyval) list"

text \<open>\<^verbatim>\<open>d.get(key, default)\<close>: the stored value when the key is present, else the default.\<close>

definition dict_get :: "report_data \<Rightarrow> pystr \<Rightarrow> pyval \<Rightarrow> pyval" where
  "dict_get d key dflt = (case map_of d key of None \<Rightarrow> dflt | Some v \<Rightarrow> v)"

text \<open>Decimal digits of a natural number and of a Python integer.\<close>

fun str_nat :: "nat \<Rightarrow> pystr" where
  "str_nat n = (if n < 10 then ascii [''0123456789'' ! n]
                else str_nat (n div 10) @ ascii [''0123456789'' ! (n mod 10)])"

declare str_nat.simps [simp del]

definition str_int :: "int \<Rightarrow> pystr" where
  "str_int i = (if i < 0 then ascii ''-'' @ str_nat (nat (- i)) else str_nat (nat i))"

text \<open>
  What an f-string replacement field \<^verbatim>\<open>{v}\<close> inserts: \<^verbatim>\<open>format(v, '')\<close>, which is
  \<^verbatim>\<open>str(v)\<close> for these values. A string is inserted as it is.
\<close>

fun py_str :: "pyval \<Rightarrow> pystr" where
  "py_str PyNone = ascii ''None''"
| "py_str (PyBool b) = (if b then ascii ''True'' else ascii ''False'')"
| "py_str (PyInt i) = str_int i"
| "py_str (PyStr s) = s"

text \<open>
  \<^verbatim>\<open>repr\<close> of a string. The quote is the single quote (39) unless the string has a single
  quote and no double quote (34). The quote and the backslash (92) are escaped; tab, line
  feed and carriage return are written \<^verbatim>\<open>\t\<close>, \<^verbatim>\<open>\n\<close>, \<^verbatim>\<open>\r\<close>; the other code points
  below 32 and the code point 127 are written \<^verbatim>\<open>\xhh\<close>; the other ASCII code points are
  copied. A code point above 127 is copied when it is printable, and written \<^verbatim>\<open>\xhh\<close>,
  \<^verbatim>\<open>\uhhhh\<close> or \<^verbatim>\<open>\Uhhhhhhhh\<close>, by its size, when it is not. Which code points above 127
  are printable is a table of the Unicode database of the running interpreter, not of this
  source: it is the parameter \<open>isprintable\<close>, here and in every function that reaches
  \<^verbatim>\<open>repr\<close>.
\<close>

definition repr_quote :: "pystr \<Rightarrow> nat" where
  "repr_quote s = (if 39 \<in> set s \<and> 34 \<notin> set s then 34 else 39)"

definition hex_digit :: "nat \<Rightarrow> nat" where
  "hex_digit n = of_char (''0123456789abcdef'' ! n)"

definition hex2 :: "nat \<Rightarrow> pystr" where
  "hex2 n = [hex_digit (n div 16), hex_digit (n mod 16)]"

definition hex4 :: "nat \<Rightarrow> pystr" where
  "hex4 n = hex2 (n div 256) @ hex2 (n mod 256)"

definition hex8 :: "nat \<Rightarrow> pystr" where
  "hex8 n = hex4 (n div 65536) @ hex4 (n mod 65536)"

definition repr_char :: "(nat \<Rightarrow> bool) \<Rightarrow> nat \<Rightarrow> nat \<Rightarrow> pystr" where
  "repr_char isprintable q c =
     (if c = q \<or> c = 92 then [92, c]
      else if c = 9 then 92 # ascii ''t''
      else if c = 10 then 92 # ascii ''n''
      else if c = 13 then 92 # ascii ''r''
      else if c < 32 \<or> c = 127 then 92 # ascii ''x'' @ hex2 c
      else if c < 127 then [c]
      else if isprintable c then [c]
      else if c \<le> 255 then 92 # ascii ''x'' @ hex2 c
      else if c \<le> 65535 then 92 # ascii ''u'' @ hex4 c
      else 92 # ascii ''U'' @ hex8 c)"

definition repr_str :: "(nat \<Rightarrow> bool) \<Rightarrow> pystr \<Rightarrow> pystr" where
  "repr_str isprintable s =
     (let q = repr_quote s in [q] @ concat (map (repr_char isprintable q) s) @ [q])"

fun py_repr :: "(nat \<Rightarrow> bool) \<Rightarrow> pyval \<Rightarrow> pystr" where
  "py_repr isprintable (PyStr s) = repr_str isprintable s"
| "py_repr isprintable v = py_str v"

text \<open>\<^verbatim>\<open>', '.join(items)\<close>.\<close>

fun join_comma :: "pystr list \<Rightarrow> pystr" where
  "join_comma [] = []"
| "join_comma [x] = x"
| "join_comma (x # y # ys) = x @ ascii '', '' @ join_comma (y # ys)"

text \<open>The text of a dictionary, as \<^verbatim>\<open>{report_data}\<close> in an f-string inserts it.\<close>

definition repr_dict :: "(nat \<Rightarrow> bool) \<Rightarrow> report_data \<Rightarrow> pystr" where
  "repr_dict isprintable d =
     ascii ''{''
     @ join_comma (map (\<lambda>(k, v). repr_str isprintable k @ ascii '': '' @ py_repr isprintable v) d)
     @ ascii ''}''"

subsection \<open>The fallback summary builder\<close>

definition generate_fallback_summary :: "pystr \<Rightarrow> report_data \<Rightarrow> pystr" where
  "generate_fallback_summary report_type report_data =
     (if report_type = ascii ''metar'' then
        ascii ''METAR for '' @ py_str (dict_get report_data (ascii ''station'') (PyStr (ascii ''unknown station'')))
        @ ascii ''.\<newline>\<newline>This is automated weather data. Check the raw report for details.\<newline>\<newline>Exercise caution and verify conditions before flight.''
      else if report_type = ascii ''taf'' then
        ascii ''TAF forecast for '' @ py_str (dict_get report_data (ascii ''station'') (PyStr (ascii ''unknown station'')))
        @ ascii ''.\<newline>\<newline>Consult the raw forecast for detailed weather predictions.\<newline>\<newline>Plan your flight carefully considering all available information.''
      else if report_type = ascii ''pirep'' then
        ascii ''Pilot report near '' @ py_str (dict_get report_data (ascii ''location'') (PyStr (ascii ''unknown location'')))
        @ ascii ''.\<newline>\<newline>Review the raw report for specific conditions reported.\<newline>\<newline>Consider these pilot observations in your flight planning.''
      else
        ascii ''Weather information available.\<newline>\<newline>Refer to the raw data for complete details.\<newline>\<newline>Ensure thorough preflight planning.'')"

subsection \<open>The system instruction builder\<close>

definition base_prompt :: pystr where
  "base_prompt = ascii ''You are an expert aviation weather briefing assistant providing detailed, accurate summaries for pilots. Your summaries should be comprehensive yet clear, focusing on operational impact and flight safety. ''"

definition get_system_prompt :: "pystr \<Rightarrow> pystr" where
  "get_system_prompt report_type =
     (if report_type = ascii ''metar'' then
        base_prompt @ ascii ''Analyze and summarize the METAR in plain language with a focus on flight safety. Provide a detailed assessment of ceiling, visibility, winds, pressure, and significant weather phenomena. Include implications for VFR/IFR operations and mention any concerning trends if apparent.''
      else if report_type = ascii ''taf'' then
        base_prompt @ ascii ''Analyze the TAF forecast in detail, highlighting all operationally significant changes in weather conditions over the forecast period. Break down the forecast into clear time segments, focusing on changing IFR/VFR conditions, wind shifts, and hazardous weather. Include practical recommendations for flight planning.''
      else if report_type = ascii ''pirep'' then
        base_prompt @ ascii ''Provide a comprehensive analysis of this pilot report focusing on turbulence, icing, cloud tops, and other flight safety hazards. Be specific about altitude-dependent conditions, severity of hazards, and potential impact on different aircraft types. Include practical avoidance strategies when appropriate.''
      else if report_type = ascii ''sigmet'' then
        base_prompt @ ascii ''Thoroughly analyze this SIGMET emphasizing the hazard, affected area, altitudes, timing, and movement. Provide clear details about the safety implications for flights in or near the affected area, and suggest potential mitigation strategies.''
      else
        base_prompt @ ascii ''Provide a thorough and detailed analysis of this aviation weather information focusing on all flight safety implications and operational considerations.'')"

subsection \<open>The user instruction builder\<close>

definition create_prompt_for_report :: "(nat \<Rightarrow> bool) \<Rightarrow> pystr \<Rightarrow> report_data \<Rightarrow> pystr" where
  "create_prompt_for_report isprintable report_type report_data =
     (if report_type = ascii ''metar'' then
        ascii ''Create a detailed, pilot-friendly analysis of this METAR for ''
        @ py_str (dict_get report_data (ascii ''station'') (PyStr (ascii ''unknown station'')))
        @ ascii '':\<newline>Raw METAR: ''
        @ py_str (dict_get report_data (ascii ''raw_text'') (PyStr (ascii ''No raw data available'')))
        @ ascii ''\<newline>\<newline>Include the following in your summary:\<newline>1. Flight category (VFR/MVFR/IFR/LIFR) with clear explanation of the determining factors\<newline>2. Ceiling and visibility in plain language with operational impact\<newline>3. Detailed wind conditions including gusts and crosswind components if significant\<newline>4. All precipitation and weather phenomena with severity and implications\<newline>5. Temperature/dewpoint analysis including potential for icing or fog formation\<newline>6. Pressure trends and their significance\<newline>7. Any specific hazards or concerns evident from the report\<newline>\<newline>Format your response with clear sections and conclude with specific operational recommendations.''
      else if report_type = ascii ''taf'' then
        ascii ''Create a detailed, pilot-friendly analysis of this TAF forecast for ''
        @ py_str (dict_get report_data (ascii ''station'') (PyStr (ascii ''unknown station'')))
        @ ascii '':\<newline>Raw TAF: ''
        @ py_str (dict_get report_data (ascii ''raw_text'') (PyStr (ascii ''No raw data available'')))
        @ ascii ''\<newline>\<newline>Include the following in your analysis:\<newline>1. Overall summary of weather evolution during the forecast period\<newline>2. Detailed breakdown of each significant time period in chronological order\<newline>3. Clear identification of all IFR or MVFR conditions with timing and duration\<newline>4. Comprehensive wind analysis including direction shifts and gusting conditions\<newline>5. Detailed description of all forecast weather phenomena and their intensity\<newline>6. Identification of the most challenging period(s) during the forecast\<newline>7. Specific operational considerations for takeoff, en route, and landing phases\<newline>\<newline>Structure your response with clearly organized sections by time period, and conclude with practical flight planning recommendations.''
      else if report_type = ascii ''pirep'' then
        ascii ''Create a detailed, pilot-friendly analysis of this Pilot Report:\<newline>Raw PIREP: ''
        @ py_str (dict_get report_data (ascii ''raw_text'') (PyStr (ascii ''No raw data available'')))
        @ ascii ''\<newline>\<newline>Include the following in your analysis:\<newline>1. Aircraft type, precise location, and altitude of the report\<newline>2. Detailed assessment of turbulence including type, intensity, and vertical extent\<newline>3. Comprehensive icing information including type, severity, and altitude layer\<newline>4. Thorough cloud information including bases, tops, layers, and coverage\<newline>5. Visibility conditions and any obscuring phenomena\<newline>6. Time context of the report and its current relevance\<newline>7. Correlation with forecast conditions if apparent\<newline>\<newline>Format your response with clear sections and conclude with specific operational recommendations for pilots in the area.''
      else if report_type = ascii ''sigmet'' then
        ascii ''Create a detailed, pilot-friendly analysis of this SIGMET:\<newline>Raw SIGMET: ''
        @ py_str (dict_get report_data (ascii ''raw_text'') (PyStr (ascii ''No raw data available'')))
        @ ascii ''\<newline>\<newline>Include the following in your analysis:\<newline>1. Precise identification of the hazard type and its severity\<newline>2. Detailed geographic description of the affected area with key landmarks/waypoints\<newline>3. Comprehensive altitude range information with flight level context\<newline>4. Specific validity timeframe and remaining duration\<newline>5. Movement, intensification, or dissipation trends of the hazard\<newline>6. Potential impact on different phases of flight and aircraft categories\<newline>7. Correlation with other weather data if apparent\<newline>\<newline>Structure your response with clear sections and conclude with specific avoidance or mitigation strategies.''
      else
        ascii ''Please provide a comprehensive analysis of this aviation weather information with detailed operational implications for pilots: ''
        @ repr_dict isprintable report_data)"

subsection \<open>The service object and its construction\<close>

text \<open>
  The constructor keeps the credential and the fixed model identifier. The client object it
  also builds holds no data of its own here: the remote completion capability is the
  function handed to \<open>generate_summary\<close> below.
\<close>

record service =
  api_key :: pystr
  model :: pystr

text \<open>Truthiness of an \<^verbatim>\<open>Optional[str]\<close> and Python's \<^verbatim>\<open>a or b\<close> on such values.\<close>

definition py_truthy :: "pystr option \<Rightarrow> bool" where
  "py_truthy v = (case v of None \<Rightarrow> False | Some s \<Rightarrow> s \<noteq> [])"

definition py_or :: "pystr option \<Rightarrow> pystr option \<Rightarrow> pystr option" where
  "py_or a b = (if py_truthy a then a else b)"

text \<open>
  \<^verbatim>\<open>__init__(self, api_key=None)\<close>. The process environment is a map, read with
  \<^verbatim>\<open>os.environ.get("OPENAI_API_KEY")\<close>. The settings object comes from the application's
  configuration module, which is not part of this source file: the value of its field
  \<^verbatim>\<open>OPENAI_API_KEY\<close> is the third parameter.
\<close>

definition init :: "pystr option \<Rightarrow> (pystr \<rightharpoonup> pystr) \<Rightarrow> pystr option \<Rightarrow> service" where
  "init api_key_arg environ settings_OPENAI_API_KEY =
     (let k = py_or (py_or api_key_arg (environ (ascii ''OPENAI_API_KEY''))) settings_OPENAI_API_KEY
      in \<lparr>api_key = (case k of
                        None \<Rightarrow> []
                      | Some s \<Rightarrow> if s = [] \<or> prefix (ascii ''sk-your-'') s then [] else s),
          model = ascii ''gpt-4o''\<rparr>)"

subsection \<open>The remote completion capability\<close>

text \<open>
  One request carries the model identifier, the role-tagged messages, the sampling
  temperature and the output limit. The remote call either returns a response object or
  raises. \<open>PyException\<close> stands for a raised instance of Python's class \<^verbatim>\<open>Exception\<close>, which
  is what \<^verbatim>\<open>except Exception\<close> catches; \<open>PyBaseException\<close> for a raised object outside that
  class, such as \<^verbatim>\<open>asyncio.CancelledError\<close> or \<^verbatim>\<open>KeyboardInterrupt\<close>, which that handler
  lets through. Both carry the name of the raised class. The text of a choice is optional,
  as the attribute \<^verbatim>\<open>message.content\<close> may be \<^verbatim>\<open>None\<close>.
\<close>

record request =
  rq_model :: pystr
  messages :: "(pystr \<times> pystr) list"
  temperature :: real
  max_tokens :: nat

record message =
  content :: "pystr option"

record choice =
  message :: message

record response =
  choices :: "choice list"

datatype py_raised = PyException string | PyBaseException string

datatype remote_outcome = Returns "response option" | Raises py_raised

subsection \<open>Trimming\<close>

text \<open>
  \<^verbatim>\<open>str.strip()\<close> removes leading and trailing whitespace. The code points Python counts
  as whitespace are the fixed list of its Unicode tables: 9 to 13, 28 to 32, U+0085,
  U+00A0, U+1680, U+2000 to U+200A, U+2028, U+2029, U+202F, U+205F and U+3000.
\<close>

definition py_isspace :: "nat \<Rightarrow> bool" where
  "py_isspace c =
     ((9 \<le> c \<and> c \<le> 13) \<or> (28 \<le> c \<and> c \<le> 32) \<or> c = 0x85 \<or> c = 0xA0 \<or> c = 0x1680
      \<or> (0x2000 \<le> c \<and> c \<le> 0x200A) \<or> c = 0x2028 \<or> c = 0x2029 \<or> c = 0x202F
      \<or> c = 0x205F \<or> c = 0x3000)"

definition strip :: "pystr \<Rightarrow> pystr" where
  "strip s = rev (dropWhile py_isspace (rev (dropWhile py_isspace s)))"

subsection \<open>Generating a summary\<close>

text \<open>The keyword arguments of the one call to \<^verbatim>\<open>chat.completions.create\<close>.\<close>

definition build_request :: "(nat \<Rightarrow> bool) \<Rightarrow> service \<Rightarrow> pystr \<Rightarrow> report_data \<Rightarrow> request" where
  "build_request isprintable self report_type report_data =
     \<lparr>rq_model = model self,
      messages = [(ascii ''system'', get_system_prompt report_type),
                  (ascii ''user'', create_prompt_for_report isprintable report_type report_data)],
      temperature = 0.3,
      max_tokens = 600\<rparr>"

text \<open>
  \<^verbatim>\<open>generate_summary\<close> returns a pair: what the caller gets, and the list of requests sent
  to the remote capability. What the caller gets is \<open>Inr None\<close> for Python's \<^verbatim>\<open>None\<close>,
  \<open>Inr (Some s)\<close> for a string, and \<open>Inl e\<close> when a raised object leaves the function.
  Reading \<^verbatim>\<open>.strip()\<close> of a text that is \<^verbatim>\<open>None\<close> raises \<^verbatim>\<open>AttributeError\<close> inside the
  \<^verbatim>\<open>try\<close> block, so it ends in the handler like a failure of the call. The log entries
  do not influence the result and are left out.
\<close>

definition generate_summary ::
  "(nat \<Rightarrow> bool) \<Rightarrow> service \<Rightarrow> (request \<Rightarrow> remote_outcome) \<Rightarrow> pystr \<Rightarrow> report_data
     \<Rightarrow> (py_raised + pystr option) \<times> request list" where
  "generate_summary isprintable self create report_type report_data =
     (if api_key self = [] then (Inr None, [])
      else
        let rq = build_request isprintable self report_type report_data in
        (case create rq of
           Raises (PyBaseException e) \<Rightarrow> Inl (PyBaseException e)
         | Raises (PyException e) \<Rightarrow>
             Inr (Some (generate_fallback_summary report_type report_data))
         | Returns None \<Rightarrow> Inr None
         | Returns (Some r) \<Rightarrow>
             (case choices r of
                [] \<Rightarrow> Inr None
              | c # _ \<Rightarrow>
                  (case content (message c) of
                     None \<Rightarrow> Inr (Some (generate_fallback_summary report_type report_data))
                   | Some text \<Rightarrow> Inr (Some (strip text)))),
         [rq]))"

subsection \<open>Stand-ins for the concrete runs\<close>

text \<open>
  The concrete runs below need a remote capability and a table of printable code points.
  \<open>stub_remote\<close> answers every request with the same outcome. \<open>latin1_isprintable\<close> is the
  Unicode table on the code points from 128 to 255, where the controls 128 to 159, the
  no-break space 160 and the soft hyphen 173 are not printable; the runs use no code point
  above 255.
\<close>

definition stub_remote :: "remote_outcome \<Rightarrow> request \<Rightarrow> remote_outcome" where
  "stub_remote out rq = out"

definition latin1_isprintable :: "nat \<Rightarrow> bool" where
  "latin1_isprintable c = (160 < c \<and> c \<noteq> 173)"

subsection \<open>The credential rule in the words of the specification\<close>

text \<open>
  The specification names three sources in priority order and treats an empty or
  placeholder credential as absent. \<open>first_supplied\<close> is the first source of a list that
  supplies a non-empty string (the empty string when none does); \<open>absent_if_placeholder\<close>
  is the placeholder rule.
\<close>

fun first_supplied :: "pystr option list \<Rightarrow> pystr" where
  "first_supplied [] = []"
| "first_supplied (None # rest) = first_supplied rest"
| "first_supplied (Some k # rest) = (if k = [] then first_supplied rest else k)"

definition absent_if_placeholder :: "pystr \<Rightarrow> pystr" where
  "absent_if_placeholder k = (if k = [] \<or> prefix (ascii ''sk-your-'') k then [] else k)"

subsection \<open>The report kinds and the phrases the specification names\<close>

text \<open>The four report kinds the builders know by name.\<close>

definition known_kinds :: "pystr list" where
  "known_kinds = [ascii ''metar'', ascii ''taf'', ascii ''pirep'', ascii ''sigmet'']"

text \<open>The label that precedes the raw report text in the user instruction of each kind.\<close>

definition raw_label :: "pystr \<Rightarrow> pystr" where
  "raw_label kind =
     (if kind = ascii ''metar'' then ascii ''Raw METAR: ''
      else if kind = ascii ''taf'' then ascii ''Raw TAF: ''
      else if kind = ascii ''pirep'' then ascii ''Raw PIREP: ''
      else ascii ''Raw SIGMET: '')"

text \<open>
  The specification describes the persona preamble by three phrases and the focus of each
  kind by a row of topics. The two definitions below list them: the three phrases, and for
  each kind the name of the report followed by the topics of its row, each topic in the
  words the instruction text uses for it.
\<close>

definition persona_phrases :: "string list" where
  "persona_phrases = [''expert aviation weather briefing assistant'',
                      ''comprehensive yet clear'',
                      ''operational impact and flight safety'']"

definition focus_phrases :: "pystr \<Rightarrow> string list" where
  "focus_phrases kind =
     (if kind = ascii ''metar'' then
        [''METAR'', ''ceiling'', ''visibility'', ''wind'', ''pressure'', ''phenomena'', ''VFR/IFR'', ''trend'']
      else if kind = ascii ''taf'' then
        [''TAF'', ''time segments'', ''IFR/VFR'', ''wind shifts'', ''hazardous weather'', ''flight planning'']
      else if kind = ascii ''pirep'' then
        [''pilot report'', ''turbulence'', ''icing'', ''cloud tops'', ''altitude'', ''hazards'',
         ''aircraft types'', ''avoidance strategies'']
      else if kind = ascii ''sigmet'' then
        [''SIGMET'', ''hazard'', ''affected area'', ''altitudes'', ''timing'', ''movement'',
         ''safety implications'', ''mitigation strategies'']
      else [])"


section \<open>Properties\<close>

subsection \<open>Facts about ASCII literals\<close>

lemma ascii_Nil [simp]: "ascii [] = []"
  by (simp add: ascii_def)

lemma ascii_eq_iff [simp]: "ascii a = ascii b \<longleftrightarrow> a = b"
  by (simp add: ascii_def inj_of_char)

lemma ascii_eq_Nil [simp]: "ascii a = [] \<longleftrightarrow> a = []"
  by (simp add: ascii_def)

lemma Nil_eq_ascii [simp]: "[] = ascii a \<longleftrightarrow> a = []"
  by (simp add: ascii_def)

lemma ascii_append: "ascii (a @ b) = ascii a @ ascii b"
  by (simp add: ascii_def)

lemma ascii_prefix [simp]: "prefix (ascii a) (ascii b) \<longleftrightarrow> prefix a b"
proof
  assume "prefix a b"
  then show "prefix (ascii a) (ascii b)"
    unfolding ascii_def by (rule map_mono_prefix)
next
  assume "prefix (ascii a) (ascii b)"
  then obtain z where "map of_char b = map of_char a @ (z :: nat list)"
    unfolding ascii_def prefix_def by blast
  then obtain u w where "b = u @ w" and "map of_char u = (map of_char a :: nat list)"
    by (auto simp: map_eq_append_conv)
  then have "b = a @ w" by (simp add: inj_of_char)
  then show "prefix a b" by simp
qed

lemma ascii_sublist_iff [simp]: "sublist (ascii a) (ascii b) \<longleftrightarrow> sublist a b"
proof
  assume "sublist a b"
  then show "sublist (ascii a) (ascii b)"
    unfolding ascii_def by (rule map_mono_sublist)
next
  assume "sublist (ascii a) (ascii b)"
  then obtain ps ss where "map of_char b = ps @ (map of_char a :: nat list) @ ss"
    unfolding ascii_def sublist_def by blast
  then have "\<exists>us vs. b = us @ vs \<and> ps = map of_char us
               \<and> (map of_char a :: nat list) @ ss = map of_char vs"
    by (simp only: map_eq_append_conv)
  then obtain us vs where b1: "b = us @ vs"
    and "map of_char vs = (map of_char a :: nat list) @ ss"
    by metis
  then have "\<exists>ws zs. vs = ws @ zs \<and> (map of_char a :: nat list) = map of_char ws
               \<and> ss = map of_char zs"
    by (simp only: map_eq_append_conv)
  then obtain ws zs where b2: "vs = ws @ zs"
    and "(map of_char ws :: nat list) = map of_char a"
    by metis
  then have "ws = a" by (simp add: inj_of_char)
  with b1 b2 have "b = us @ a @ zs" by simp
  then show "sublist a b" unfolding sublist_def by blast
qed

lemma ascii_append_neq:
  "a \<noteq> [] \<Longrightarrow> b \<noteq> [] \<Longrightarrow> hd a \<noteq> hd b \<Longrightarrow> ascii a @ x \<noteq> ascii b @ y"
  by (cases a; cases b) (simp_all add: ascii_def)

lemma ascii_neq_append:
  "a \<noteq> [] \<Longrightarrow> b \<noteq> [] \<Longrightarrow> hd a \<noteq> hd b \<Longrightarrow> ascii a \<noteq> ascii b @ y"
  by (cases a; cases b) (simp_all add: ascii_def)

lemma ascii_suffix: "suffix a b \<Longrightarrow> suffix (ascii a) (ascii b)"
  unfolding ascii_def by (rule map_mono_suffix)

subsection \<open>Facts about trimming\<close>

lemma rev_drop_take_split:
  "xs = rev (dropWhile P (rev xs)) @ rev (takeWhile P (rev xs))"
proof -
  have "rev (takeWhile P (rev xs) @ dropWhile P (rev xs)) = rev (rev xs)"
    by (simp only: takeWhile_dropWhile_id)
  then show ?thesis
    by (simp only: rev_append rev_rev_ident)
qed

lemma strip_decompose:
  "\<exists>pre post. t = pre @ strip t @ post
     \<and> (\<forall>c\<in>set pre. py_isspace c) \<and> (\<forall>c\<in>set post. py_isspace c)"
proof -
  define u where "u = dropWhile py_isspace t"
  have t_split: "t = takeWhile py_isspace t @ u"
    by (simp add: u_def)
  have u_split: "u = strip t @ rev (takeWhile py_isspace (rev u))"
    unfolding strip_def u_def by (rule rev_drop_take_split)
  have pre_ws: "\<forall>c\<in>set (takeWhile py_isspace t). py_isspace c"
    by (auto dest: set_takeWhileD)
  have post_ws: "\<forall>c\<in>set (rev (takeWhile py_isspace (rev u))). py_isspace c"
    by (auto dest: set_takeWhileD)
  from t_split u_split
  have "t = takeWhile py_isspace t @ strip t @ rev (takeWhile py_isspace (rev u))"
    by simp
  with pre_ws post_ws show ?thesis by blast
qed

lemma strip_last: "strip t \<noteq> [] \<Longrightarrow> \<not> py_isspace (last (strip t))"
proof -
  assume ne: "strip t \<noteq> []"
  let ?d = "dropWhile py_isspace (rev (dropWhile py_isspace t))"
  from ne have "?d \<noteq> []" by (simp add: strip_def)
  then have "\<not> py_isspace (hd ?d)" by (rule hd_dropWhile)
  moreover from \<open>?d \<noteq> []\<close> have "last (strip t) = hd ?d"
    by (simp add: strip_def last_rev)
  ultimately show ?thesis by simp
qed

lemma strip_hd: "strip t \<noteq> [] \<Longrightarrow> \<not> py_isspace (hd (strip t))"
proof -
  assume ne: "strip t \<noteq> []"
  define u where "u = dropWhile py_isspace t"
  have u_split: "u = strip t @ rev (takeWhile py_isspace (rev u))"
    unfolding strip_def u_def by (rule rev_drop_take_split)
  with ne have "u \<noteq> []" and "hd u = hd (strip t)"
    by (metis append_is_Nil_conv, metis hd_append2)
  from \<open>u \<noteq> []\<close> have "\<not> py_isspace (hd u)"
    unfolding u_def by (rule hd_dropWhile)
  with \<open>hd u = hd (strip t)\<close> show ?thesis by simp
qed

subsection \<open>The fallback text of a SIGMET\<close>

text \<open>
  Claim C1 asks for one fallback template for each of the four report kinds and, in
  particular, a template of its own for \<^verbatim>\<open>sigmet\<close>. The fallback builder has branches for
  \<^verbatim>\<open>metar\<close>, \<^verbatim>\<open>taf\<close> and \<^verbatim>\<open>pirep\<close> only, while both prompt builders have a fourth one
  for \<^verbatim>\<open>sigmet\<close>. Run on a SIGMET, the fallback builder returns the generic paragraph, the
  same text an unrecognised kind gets.
\<close>

theorem fallback_sigmet_generic:
  "generate_fallback_summary (ascii ''sigmet'')
       [(ascii ''raw_text'', PyStr (ascii ''SIGMET A1 VALID 041200/041600''))]
     = ascii ''Weather information available.\<newline>\<newline>Refer to the raw data for complete details.\<newline>\<newline>Ensure thorough preflight planning.''
   \<and> generate_fallback_summary (ascii ''sigmet'')
       [(ascii ''raw_text'', PyStr (ascii ''SIGMET A1 VALID 041200/041600''))]
     = generate_fallback_summary (ascii ''unknown-type'')
       [(ascii ''raw_text'', PyStr (ascii ''SIGMET A1 VALID 041200/041600''))]"
  by (simp add: generate_fallback_summary_def)

subsection \<open>No credential\<close>

text \<open>
  Claim C4: for every report type and report data, a service whose credential is empty
  returns \<^verbatim>\<open>None\<close> and sends no request to the remote capability, whatever that capability
  would have answered.
\<close>

theorem no_credential_absent:
  "api_key self = [] \<Longrightarrow>
     generate_summary isprintable self create report_type report_data = (Inr None, [])"
  by (simp add: generate_summary_def)

theorem no_credential_absent_witness:
  "api_key (init None Map.empty (Some (ascii ''sk-your-api-key-here''))) = []
   \<and> generate_summary latin1_isprintable (init None Map.empty (Some (ascii ''sk-your-api-key-here'')))
        (stub_remote (Returns (Some \<lparr>choices = [\<lparr>message = \<lparr>content = Some (ascii ''Clear.'')\<rparr>\<rparr>]\<rparr>)))
        (ascii ''metar'') [(ascii ''station'', PyStr (ascii ''KSEA''))] = (Inr None, [])"
proof -
  have h: "api_key (init None Map.empty (Some (ascii ''sk-your-api-key-here''))) = []"
    by (simp add: init_def py_or_def py_truthy_def)
  from h no_credential_absent [OF h] show ?thesis by simp
qed

subsection \<open>The remote call raises\<close>

text \<open>
  Claim C3 says that the fallback text is returned when the remote call raises any
  exception. The handler is \<^verbatim>\<open>except Exception\<close>. A raised object outside that class, such
  as the \<^verbatim>\<open>asyncio.CancelledError\<close> of a cancelled call, is not caught: it leaves
  \<open>generate_summary\<close>, and no fallback text is returned.
\<close>

theorem cancelled_call_counterexample:
  "fst (generate_summary latin1_isprintable \<lparr>api_key = ascii ''sk-live-key'', model = ascii ''gpt-4o''\<rparr>
          (stub_remote (Raises (PyBaseException ''CancelledError'')))
          (ascii ''metar'') [(ascii ''station'', PyStr (ascii ''KSEA''))])
     = Inl (PyBaseException ''CancelledError'')
   \<and> fst (generate_summary latin1_isprintable \<lparr>api_key = ascii ''sk-live-key'', model = ascii ''gpt-4o''\<rparr>
          (stub_remote (Raises (PyBaseException ''CancelledError'')))
          (ascii ''metar'') [(ascii ''station'', PyStr (ascii ''KSEA''))])
     \<noteq> Inr (Some (generate_fallback_summary (ascii ''metar'') [(ascii ''station'', PyStr (ascii ''KSEA''))]))"
  by (simp add: generate_summary_def stub_remote_def)

text \<open>
  Claim C3 as amended: for every report type and report data, when the credential is
  configured and the remote call raises an instance of \<^verbatim>\<open>Exception\<close>, whatever its class
  below \<^verbatim>\<open>Exception\<close> and its message, \<open>generate_summary\<close> returns a value, so the exception
  does not leave the function, and that value is exactly the fallback text of the same
  report type and data; one request was sent. For \<^verbatim>\<open>metar\<close> with the data
  \<^verbatim>\<open>{"station": "KSEA"}\<close> the result starts with \<^verbatim>\<open>METAR for KSEA.\<close> and contains
  \<^verbatim>\<open>Exercise caution\<close>.
\<close>

theorem remote_raises_fallback:
  assumes "api_key self \<noteq> []"
    and "create (build_request isprintable self report_type report_data) = Raises (PyException e)"
  shows "generate_summary isprintable self create report_type report_data
           = (Inr (Some (generate_fallback_summary report_type report_data)),
              [build_request isprintable self report_type report_data])
         \<and> (report_type = ascii ''metar''
              \<and> report_data = [(ascii ''station'', PyStr (ascii ''KSEA''))] \<longrightarrow>
              (\<exists>s. fst (generate_summary isprintable self create report_type report_data) = Inr (Some s)
                 \<and> prefix (ascii ''METAR for KSEA.'') s \<and> sublist (ascii ''Exercise caution'') s))"
proof -
  from assms have res: "generate_summary isprintable self create report_type report_data
           = (Inr (Some (generate_fallback_summary report_type report_data)),
              [build_request isprintable self report_type report_data])"
    by (simp add: generate_summary_def)
  have fb: "generate_fallback_summary (ascii ''metar'') [(ascii ''station'', PyStr (ascii ''KSEA''))]
     = ascii ''METAR for KSEA.\<newline>\<newline>This is automated weather data. Check the raw report for details.\<newline>\<newline>Exercise caution and verify conditions before flight.''"
    by (simp add: generate_fallback_summary_def dict_get_def ascii_append [symmetric])
  have ex: "prefix (ascii ''METAR for KSEA.'')
              (generate_fallback_summary (ascii ''metar'') [(ascii ''station'', PyStr (ascii ''KSEA''))])
        \<and> sublist (ascii ''Exercise caution'')
              (generate_fallback_summary (ascii ''metar'') [(ascii ''station'', PyStr (ascii ''KSEA''))])"
    unfolding fb by (simp add: sublist_Cons_right)
  show ?thesis
  proof (intro conjI impI)
    show "generate_summary isprintable self create report_type report_data
           = (Inr (Some (generate_fallback_summary report_type report_data)),
              [build_request isprintable self report_type report_data])"
      by (rule res)
  next
    assume "report_type = ascii ''metar''
              \<and> report_data = [(ascii ''station'', PyStr (ascii ''KSEA''))]"
    with res ex
    show "\<exists>s. fst (generate_summary isprintable self create report_type report_data) = Inr (Some s)
                 \<and> prefix (ascii ''METAR for KSEA.'') s \<and> sublist (ascii ''Exercise caution'') s"
      by simp
  qed
qed

theorem remote_raises_fallback_witness:
  "generate_summary latin1_isprintable (init (Some (ascii ''sk-live-key'')) Map.empty None)
      (stub_remote (Raises (PyException ''APIConnectionError'')))
      (ascii ''metar'') [(ascii ''station'', PyStr (ascii ''KSEA''))]
   = (Inr (Some (ascii ''METAR for KSEA.\<newline>\<newline>This is automated weather data. Check the raw report for details.\<newline>\<newline>Exercise caution and verify conditions before flight.'')),
      [build_request latin1_isprintable (init (Some (ascii ''sk-live-key'')) Map.empty None)
         (ascii ''metar'') [(ascii ''station'', PyStr (ascii ''KSEA''))]])"
proof -
  let ?svc = "init (Some (ascii ''sk-live-key'')) Map.empty None"
  let ?rd = "[(ascii ''station'', PyStr (ascii ''KSEA''))]"
  have h1: "api_key ?svc \<noteq> []"
    by (simp add: init_def py_or_def py_truthy_def)
  have h2: "stub_remote (Raises (PyException ''APIConnectionError''))
              (build_request latin1_isprintable ?svc (ascii ''metar'') ?rd)
            = Raises (PyException ''APIConnectionError'')"
    by (simp add: stub_remote_def)
  have fb: "generate_fallback_summary (ascii ''metar'') ?rd
     = ascii ''METAR for KSEA.\<newline>\<newline>This is automated weather data. Check the raw report for details.\<newline>\<newline>Exercise caution and verify conditions before flight.''"
    by (simp add: generate_fallback_summary_def dict_get_def ascii_append [symmetric])
  from remote_raises_fallback
         [where create = "stub_remote (Raises (PyException ''APIConnectionError''))", OF h1 h2] fb
  show ?thesis by simp
qed

subsection \<open>The first choice has an empty text\<close>

text \<open>
  Claim C2: when the credential is configured and the remote call returns a well-formed
  response whose list of choices is empty or whose first choice's text is empty, the
  result is \<^verbatim>\<open>None\<close>, not the fallback text and not an empty string. The code returns
  \<^verbatim>\<open>None\<close> for an empty list of choices, the path that logs that no content was returned.
  It never looks at the text: one choice whose text is the empty string is trimmed and
  returned, so the caller gets the empty string, and one choice whose text is \<^verbatim>\<open>None\<close>
  ends in the handler and gives the fallback text. The three runs below are on the same
  service, report type and data.
\<close>

theorem empty_text_returns_empty_string:
  "fst (generate_summary latin1_isprintable \<lparr>api_key = ascii ''sk-live-key'', model = ascii ''gpt-4o''\<rparr>
          (stub_remote (Returns (Some \<lparr>choices = [\<lparr>message = \<lparr>content = Some []\<rparr>\<rparr>]\<rparr>)))
          (ascii ''metar'') [(ascii ''station'', PyStr (ascii ''KSEA''))])
     = Inr (Some [])
   \<and> fst (generate_summary latin1_isprintable \<lparr>api_key = ascii ''sk-live-key'', model = ascii ''gpt-4o''\<rparr>
          (stub_remote (Returns (Some \<lparr>choices = []\<rparr>)))
          (ascii ''metar'') [(ascii ''station'', PyStr (ascii ''KSEA''))])
     = Inr None
   \<and> fst (generate_summary latin1_isprintable \<lparr>api_key = ascii ''sk-live-key'', model = ascii ''gpt-4o''\<rparr>
          (stub_remote (Returns (Some \<lparr>choices = [\<lparr>message = \<lparr>content = None\<rparr>\<rparr>]\<rparr>)))
          (ascii ''metar'') [(ascii ''station'', PyStr (ascii ''KSEA''))])
     = Inr (Some (generate_fallback_summary (ascii ''metar'') [(ascii ''station'', PyStr (ascii ''KSEA''))]))"
  by (simp add: generate_summary_def stub_remote_def strip_def)

subsection \<open>The remote call returns a text\<close>

text \<open>
  Claim C5 says that with at least one choice bearing non-empty text the result is that
  text, trimmed. The code reads the first choice only. When the first choice has an empty
  text and the second one bears \<^verbatim>\<open>" Clear skies expected. "\<close>, the result is not
  \<^verbatim>\<open>"Clear skies expected."\<close>.
\<close>

theorem later_choice_counterexample:
  "fst (generate_summary latin1_isprintable \<lparr>api_key = ascii ''sk-live-key'', model = ascii ''gpt-4o''\<rparr>
          (stub_remote (Returns (Some \<lparr>choices =
             [\<lparr>message = \<lparr>content = Some []\<rparr>\<rparr>,
              \<lparr>message = \<lparr>content = Some (ascii '' Clear skies expected. '')\<rparr>\<rparr>]\<rparr>)))
          (ascii ''metar'') [(ascii ''station'', PyStr (ascii ''KSEA''))])
     \<noteq> Inr (Some (ascii ''Clear skies expected.''))"
  by (simp add: generate_summary_def stub_remote_def strip_def)

text \<open>
  Claim C5 as amended: when the credential is configured and the remote call returns a
  response with at least one choice, the first of which bears non-empty text,
  \<open>generate_summary\<close> returns the text of the first choice trimmed and otherwise unmodified:
  the text is the result with whitespace only before and after it, and a non-empty result
  neither starts nor ends with whitespace. The single choice \<^verbatim>\<open>" Clear skies expected. "\<close>
  gives \<^verbatim>\<open>"Clear skies expected."\<close>.
\<close>

theorem remote_text_trimmed:
  assumes "api_key self \<noteq> []"
    and "create (build_request isprintable self report_type report_data) = Returns (Some r)"
    and "choices r = c # cs"
    and "content (message c) = Some text"
    and "text \<noteq> []"
  shows "generate_summary isprintable self create report_type report_data
           = (Inr (Some (strip text)), [build_request isprintable self report_type report_data])
       \<and> (\<exists>pre post. text = pre @ strip text @ post
             \<and> (\<forall>ch\<in>set pre. py_isspace ch) \<and> (\<forall>ch\<in>set post. py_isspace ch))
       \<and> (strip text \<noteq> [] \<longrightarrow>
             \<not> py_isspace (hd (strip text)) \<and> \<not> py_isspace (last (strip text)))
       \<and> (text = ascii '' Clear skies expected. '' \<longrightarrow> strip text = ascii ''Clear skies expected.'')"
proof (intro conjI impI)
  from assms show "generate_summary isprintable self create report_type report_data
           = (Inr (Some (strip text)), [build_request isprintable self report_type report_data])"
    by (simp add: generate_summary_def)
next
  show "\<exists>pre post. text = pre @ strip text @ post
             \<and> (\<forall>ch\<in>set pre. py_isspace ch) \<and> (\<forall>ch\<in>set post. py_isspace ch)"
    by (rule strip_decompose)
next
  assume "strip text \<noteq> []"
  then show "\<not> py_isspace (hd (strip text))" by (rule strip_hd)
next
  assume "strip text \<noteq> []"
  then show "\<not> py_isspace (last (strip text))" by (rule strip_last)
next
  assume "text = ascii '' Clear skies expected. ''"
  then show "strip text = ascii ''Clear skies expected.''"
    by (simp add: strip_def py_isspace_def ascii_def)
qed

theorem remote_text_trimmed_witness:
  "generate_summary latin1_isprintable
      (init None [ascii ''OPENAI_API_KEY'' \<mapsto> ascii ''sk-live-key''] None)
      (stub_remote (Returns (Some \<lparr>choices =
         [\<lparr>message = \<lparr>content = Some (ascii '' Clear skies expected. '')\<rparr>\<rparr>]\<rparr>)))
      (ascii ''metar'') [(ascii ''station'', PyStr (ascii ''KSEA''))]
     = (Inr (Some (ascii ''Clear skies expected.'')),
        [build_request latin1_isprintable
           (init None [ascii ''OPENAI_API_KEY'' \<mapsto> ascii ''sk-live-key''] None)
           (ascii ''metar'') [(ascii ''station'', PyStr (ascii ''KSEA''))]])
   \<and> fst (generate_summary latin1_isprintable
      (init None [ascii ''OPENAI_API_KEY'' \<mapsto> ascii ''sk-live-key''] None)
      (stub_remote (Returns (Some \<lparr>choices =
         [\<lparr>message = \<lparr>content = Some ([0xA0, 0x2003] @ ascii ''Clear skies.'' @ [0x85, 0x3000, 10])\<rparr>\<rparr>]\<rparr>)))
      (ascii ''metar'') [(ascii ''station'', PyStr (ascii ''KSEA''))])
     = Inr (Some (ascii ''Clear skies.''))"
proof -
  let ?svc = "init None [ascii ''OPENAI_API_KEY'' \<mapsto> ascii ''sk-live-key''] None"
  let ?rd = "[(ascii ''station'', PyStr (ascii ''KSEA''))]"
  let ?t1 = "ascii '' Clear skies expected. ''"
  let ?t2 = "[0xA0, 0x2003] @ ascii ''Clear skies.'' @ [0x85, 0x3000, 10]"
  let ?r1 = "\<lparr>choices = [\<lparr>message = \<lparr>content = Some ?t1\<rparr>\<rparr>]\<rparr>"
  let ?r2 = "\<lparr>choices = [\<lparr>message = \<lparr>content = Some ?t2\<rparr>\<rparr>]\<rparr>"
  have h1: "api_key ?svc \<noteq> []"
    by (simp add: init_def py_or_def py_truthy_def)
  have a2: "stub_remote (Returns (Some ?r1)) (build_request latin1_isprintable ?svc (ascii ''metar'') ?rd)
            = Returns (Some ?r1)"
    by (simp add: stub_remote_def)
  have b2: "stub_remote (Returns (Some ?r2)) (build_request latin1_isprintable ?svc (ascii ''metar'') ?rd)
            = Returns (Some ?r2)"
    by (simp add: stub_remote_def)
  have a3: "choices ?r1 = \<lparr>message = \<lparr>content = Some ?t1\<rparr>\<rparr> # []" by simp
  have b3: "choices ?r2 = \<lparr>message = \<lparr>content = Some ?t2\<rparr>\<rparr> # []" by simp
  have a4: "content (message \<lparr>message = \<lparr>content = Some ?t1\<rparr>\<rparr>) = Some ?t1" by simp
  have b4: "content (message \<lparr>message = \<lparr>content = Some ?t2\<rparr>\<rparr>) = Some ?t2" by simp
  have a5: "?t1 \<noteq> []" by simp
  have b5: "?t2 \<noteq> []" by simp
  have tr2: "strip ?t2 = ascii ''Clear skies.''"
    by (simp add: strip_def py_isspace_def ascii_def)
  from remote_text_trimmed [where create = "stub_remote (Returns (Some ?r1))", OF h1 a2 a3 a4 a5]
       remote_text_trimmed [where create = "stub_remote (Returns (Some ?r2))", OF h1 b2 b3 b4 b5]
       tr2
  show ?thesis by simp
qed

subsection \<open>Resolving the credential\<close>

text \<open>
  Claim C8: at construction the credential is the first non-empty one among the explicit
  argument, the environment variable \<^verbatim>\<open>OPENAI_API_KEY\<close> and the settings field
  \<^verbatim>\<open>OPENAI_API_KEY\<close>, in this order; if that credential is empty or begins with the
  placeholder prefix \<^verbatim>\<open>sk-your-\<close>, the stored credential is the empty string. So a
  non-empty explicit argument decides alone, the environment decides when the argument
  gives nothing, and the settings decide when neither does.
\<close>

theorem credential_resolution:
  "api_key (init api_key_arg environ settings_OPENAI_API_KEY)
     = absent_if_placeholder
         (first_supplied [api_key_arg, environ (ascii ''OPENAI_API_KEY''), settings_OPENAI_API_KEY])
   \<and> (\<forall>k. api_key_arg = Some k \<and> k \<noteq> [] \<longrightarrow>
         api_key (init api_key_arg environ settings_OPENAI_API_KEY)
           = (if prefix (ascii ''sk-your-'') k then [] else k))
   \<and> (\<forall>k. \<not> py_truthy api_key_arg \<and> environ (ascii ''OPENAI_API_KEY'') = Some k \<and> k \<noteq> [] \<longrightarrow>
         api_key (init api_key_arg environ settings_OPENAI_API_KEY)
           = (if prefix (ascii ''sk-your-'') k then [] else k))
   \<and> (\<forall>k. \<not> py_truthy api_key_arg \<and> \<not> py_truthy (environ (ascii ''OPENAI_API_KEY''))
           \<and> settings_OPENAI_API_KEY = Some k \<and> k \<noteq> [] \<longrightarrow>
         api_key (init api_key_arg environ settings_OPENAI_API_KEY)
           = (if prefix (ascii ''sk-your-'') k then [] else k))
   \<and> (\<not> py_truthy api_key_arg \<and> \<not> py_truthy (environ (ascii ''OPENAI_API_KEY''))
           \<and> \<not> py_truthy settings_OPENAI_API_KEY \<longrightarrow>
         api_key (init api_key_arg environ settings_OPENAI_API_KEY) = [])"
  by (cases api_key_arg; cases "environ (ascii ''OPENAI_API_KEY'')"; cases settings_OPENAI_API_KEY)
     (simp_all add: init_def py_or_def py_truthy_def absent_if_placeholder_def)

theorem credential_resolution_witness:
  "api_key (init (Some (ascii ''sk-arg'')) [ascii ''OPENAI_API_KEY'' \<mapsto> ascii ''sk-env''] (Some (ascii ''sk-cfg''))) = ascii ''sk-arg''
   \<and> api_key (init None [ascii ''OPENAI_API_KEY'' \<mapsto> ascii ''sk-env''] (Some (ascii ''sk-cfg''))) = ascii ''sk-env''
   \<and> api_key (init None Map.empty (Some (ascii ''sk-cfg''))) = ascii ''sk-cfg''
   \<and> api_key (init (Some (ascii ''sk-your-api-key-here'')) [ascii ''OPENAI_API_KEY'' \<mapsto> ascii ''sk-env''] (Some (ascii ''sk-cfg''))) = []
   \<and> api_key (init None Map.empty None) = []"
  using credential_resolution [of "Some (ascii ''sk-arg'')" "[ascii ''OPENAI_API_KEY'' \<mapsto> ascii ''sk-env'']" "Some (ascii ''sk-cfg'')"]
        credential_resolution [of None "[ascii ''OPENAI_API_KEY'' \<mapsto> ascii ''sk-env'']" "Some (ascii ''sk-cfg'')"]
        credential_resolution [of None Map.empty "Some (ascii ''sk-cfg'')"]
        credential_resolution [of "Some (ascii ''sk-your-api-key-here'')" "[ascii ''OPENAI_API_KEY'' \<mapsto> ascii ''sk-env'']" "Some (ascii ''sk-cfg'')"]
        credential_resolution [of None Map.empty None]
  by (simp add: py_truthy_def absent_if_placeholder_def)

subsection \<open>Facts about contiguous parts of a text\<close>

lemma sublist_between:
  assumes "suffix a p" and "prefix b s"
  shows "sublist (a @ x @ b) (p @ x @ s)"
proof -
  from assms obtain p' s' where "p = p' @ a" and "s = b @ s'"
    by (auto simp: suffix_def prefix_def)
  then have "p @ x @ s = p' @ (a @ x @ b) @ s'" by simp
  then show ?thesis unfolding sublist_def by blast
qed

lemma sublist_between2:
  assumes "suffix a p" and "prefix b s"
  shows "sublist (a @ x @ b) (q1 @ q2 @ p @ x @ s)"
proof -
  from assms have "sublist (a @ x @ b) (p @ x @ s)" by (rule sublist_between)
  then obtain u w where "p @ x @ s = u @ (a @ x @ b) @ w"
    unfolding sublist_def by blast
  then have "q1 @ q2 @ p @ x @ s = (q1 @ q2 @ u) @ (a @ x @ b) @ w" by simp
  then show ?thesis unfolding sublist_def by blast
qed

lemma raw_embedded_metar:
  "sublist (ascii ''Raw METAR: ''
              @ py_str (dict_get rd (ascii ''raw_text'') (PyStr (ascii ''No raw data available'')))
              @ ascii ''\<newline>\<newline>Include the following in your '')
           (create_prompt_for_report isprintable (ascii ''metar'') rd)"
  unfolding create_prompt_for_report_def
  apply (subst if_P, simp)
  apply (rule sublist_between2)
   apply (rule ascii_suffix, simp add: suffix_Cons)
  apply simp
  done

lemma raw_embedded_taf:
  "sublist (ascii ''Raw TAF: ''
              @ py_str (dict_get rd (ascii ''raw_text'') (PyStr (ascii ''No raw data available'')))
              @ ascii ''\<newline>\<newline>Include the following in your '')
           (create_prompt_for_report isprintable (ascii ''taf'') rd)"
  unfolding create_prompt_for_report_def
  apply (subst if_not_P, simp)
  apply (subst if_P, simp)
  apply (rule sublist_between2)
   apply (rule ascii_suffix, simp add: suffix_Cons)
  apply simp
  done

lemma raw_embedded_pirep:
  "sublist (ascii ''Raw PIREP: ''
              @ py_str (dict_get rd (ascii ''raw_text'') (PyStr (ascii ''No raw data available'')))
              @ ascii ''\<newline>\<newline>Include the following in your '')
           (create_prompt_for_report isprintable (ascii ''pirep'') rd)"
  unfolding create_prompt_for_report_def
  apply (subst if_not_P, simp)
  apply (subst if_not_P, simp)
  apply (subst if_P, simp)
  apply (rule sublist_between)
   apply (rule ascii_suffix, simp add: suffix_Cons)
  apply simp
  done

lemma raw_embedded_sigmet:
  "sublist (ascii ''Raw SIGMET: ''
              @ py_str (dict_get rd (ascii ''raw_text'') (PyStr (ascii ''No raw data available'')))
              @ ascii ''\<newline>\<newline>Include the following in your '')
           (create_prompt_for_report isprintable (ascii ''sigmet'') rd)"
  unfolding create_prompt_for_report_def
  apply (subst if_not_P, simp)
  apply (subst if_not_P, simp)
  apply (subst if_not_P, simp)
  apply (subst if_P, simp)
  apply (rule sublist_between)
   apply (rule ascii_suffix, simp add: suffix_Cons)
  apply simp
  done

lemma raw_embedded_known:
  assumes "kind \<in> set known_kinds"
  shows "sublist (raw_label kind
              @ py_str (dict_get rd (ascii ''raw_text'') (PyStr (ascii ''No raw data available'')))
              @ ascii ''\<newline>\<newline>Include the following in your '')
           (create_prompt_for_report isprintable kind rd)"
proof -
  from assms consider "kind = ascii ''metar''" | "kind = ascii ''taf''"
    | "kind = ascii ''pirep''" | "kind = ascii ''sigmet''"
    by (auto simp: known_kinds_def)
  then show ?thesis
  proof cases
    case 1
    then show ?thesis using raw_embedded_metar [of rd isprintable] by (simp add: raw_label_def)
  next
    case 2
    then show ?thesis using raw_embedded_taf [of rd isprintable] by (simp add: raw_label_def)
  next
    case 3
    then show ?thesis using raw_embedded_pirep [of rd isprintable] by (simp add: raw_label_def)
  next
    case 4
    then show ?thesis using raw_embedded_sigmet [of rd isprintable] by (simp add: raw_label_def)
  qed
qed

lemma station_embedded_metar:
  "sublist (ascii '' for ''
              @ py_str (dict_get rd (ascii ''station'') (PyStr (ascii ''unknown station'')))
              @ ascii '':\<newline>Raw '')
           (create_prompt_for_report isprintable (ascii ''metar'') rd)"
  unfolding create_prompt_for_report_def
  apply (subst if_P, simp)
  apply (rule sublist_between)
   apply (rule ascii_suffix, simp add: suffix_Cons)
  apply (simp add: ascii_def)
  done

lemma station_embedded_taf:
  "sublist (ascii '' for ''
              @ py_str (dict_get rd (ascii ''station'') (PyStr (ascii ''unknown station'')))
              @ ascii '':\<newline>Raw '')
           (create_prompt_for_report isprintable (ascii ''taf'') rd)"
  unfolding create_prompt_for_report_def
  apply (subst if_not_P, simp)
  apply (subst if_P, simp)
  apply (rule sublist_between)
   apply (rule ascii_suffix, simp add: suffix_Cons)
  apply (simp add: ascii_def)
  done

subsection \<open>The raw report text in the user instruction\<close>

text \<open>
  Claim C6: for each of the four known kinds and every report data, the user instruction
  has, after the label of the kind, the value stored under \<^verbatim>\<open>raw_text\<close> as it is (a string
  verbatim, any other value in its text form) when the key is present, and the placeholder
  \<^verbatim>\<open>No raw data available\<close> when it is absent, followed by the enumerated outline. A missing
  key never makes the builder fail: it is a total function, and a missing \<^verbatim>\<open>station\<close> gives
  the placeholder \<^verbatim>\<open>unknown station\<close> in the two templates that name the station.
\<close>

theorem raw_text_embedded:
  assumes "report_type \<in> set known_kinds"
  shows "(\<forall>v. map_of report_data (ascii ''raw_text'') = Some v \<longrightarrow>
            sublist (raw_label report_type @ py_str v
                       @ ascii ''\<newline>\<newline>Include the following in your '')
                    (create_prompt_for_report isprintable report_type report_data))
       \<and> (\<forall>s. map_of report_data (ascii ''raw_text'') = Some (PyStr s) \<longrightarrow>
            sublist (raw_label report_type @ s
                       @ ascii ''\<newline>\<newline>Include the following in your '')
                    (create_prompt_for_report isprintable report_type report_data))
       \<and> (map_of report_data (ascii ''raw_text'') = None \<longrightarrow>
            sublist (raw_label report_type @ ascii ''No raw data available''
                       @ ascii ''\<newline>\<newline>Include the following in your '')
                    (create_prompt_for_report isprintable report_type report_data))
       \<and> ((report_type = ascii ''metar'' \<or> report_type = ascii ''taf'')
             \<and> map_of report_data (ascii ''station'') = None \<longrightarrow>
            sublist (ascii '' for unknown station:\<newline>Raw '')
                    (create_prompt_for_report isprintable report_type report_data))"
proof (intro conjI allI impI)
  fix v assume "map_of report_data (ascii ''raw_text'') = Some v"
  then have "dict_get report_data (ascii ''raw_text'') (PyStr (ascii ''No raw data available'')) = v"
    by (simp add: dict_get_def)
  with raw_embedded_known [OF assms, of report_data isprintable]
  show "sublist (raw_label report_type @ py_str v
                   @ ascii ''\<newline>\<newline>Include the following in your '')
                (create_prompt_for_report isprintable report_type report_data)"
    by simp
next
  fix s assume "map_of report_data (ascii ''raw_text'') = Some (PyStr s)"
  then have "dict_get report_data (ascii ''raw_text'') (PyStr (ascii ''No raw data available''))
               = PyStr s"
    by (simp add: dict_get_def)
  with raw_embedded_known [OF assms, of report_data isprintable]
  show "sublist (raw_label report_type @ s
                   @ ascii ''\<newline>\<newline>Include the following in your '')
                (create_prompt_for_report isprintable report_type report_data)"
    by simp
next
  assume "map_of report_data (ascii ''raw_text'') = None"
  then have "dict_get report_data (ascii ''raw_text'') (PyStr (ascii ''No raw data available''))
               = PyStr (ascii ''No raw data available'')"
    by (simp add: dict_get_def)
  with raw_embedded_known [OF assms, of report_data isprintable]
  show "sublist (raw_label report_type @ ascii ''No raw data available''
                   @ ascii ''\<newline>\<newline>Include the following in your '')
                (create_prompt_for_report isprintable report_type report_data)"
    by simp
next
  assume a: "(report_type = ascii ''metar'' \<or> report_type = ascii ''taf'')
               \<and> map_of report_data (ascii ''station'') = None"
  then have st: "dict_get report_data (ascii ''station'') (PyStr (ascii ''unknown station''))
                  = PyStr (ascii ''unknown station'')"
    by (simp add: dict_get_def)
  have lit: "ascii '' for '' @ ascii ''unknown station'' @ ascii '':\<newline>Raw ''
               = ascii '' for unknown station:\<newline>Raw ''"
    by (simp add: ascii_def)
  from a have "report_type = ascii ''metar'' \<or> report_type = ascii ''taf''" by simp
  then show "sublist (ascii '' for unknown station:\<newline>Raw '')
                (create_prompt_for_report isprintable report_type report_data)"
  proof
    assume "report_type = ascii ''metar''"
    with station_embedded_metar [of report_data isprintable] st lit show ?thesis by simp
  next
    assume "report_type = ascii ''taf''"
    with station_embedded_taf [of report_data isprintable] st lit show ?thesis by simp
  qed
qed

theorem raw_text_embedded_witness:
  "ascii ''metar'' \<in> set known_kinds
   \<and> sublist (ascii ''Raw METAR: KSEA 041153Z 00000KT 10SM CLR 12/08 A3012\<newline>\<newline>Include the following in your '')
        (create_prompt_for_report latin1_isprintable (ascii ''metar'')
           [(ascii ''station'', PyStr (ascii ''KSEA'')),
            (ascii ''raw_text'', PyStr (ascii ''KSEA 041153Z 00000KT 10SM CLR 12/08 A3012''))])
   \<and> sublist (ascii ''Raw METAR: No raw data available\<newline>\<newline>Include the following in your '')
        (create_prompt_for_report latin1_isprintable (ascii ''metar'') [])
   \<and> sublist (ascii '' for unknown station:\<newline>Raw '')
        (create_prompt_for_report latin1_isprintable (ascii ''metar'') [])"
proof -
  have h: "ascii ''metar'' \<in> set known_kinds" by (simp add: known_kinds_def)
  have l1: "ascii ''Raw METAR: '' @ ascii ''KSEA 041153Z 00000KT 10SM CLR 12/08 A3012''
              @ ascii ''\<newline>\<newline>Include the following in your ''
            = ascii ''Raw METAR: KSEA 041153Z 00000KT 10SM CLR 12/08 A3012\<newline>\<newline>Include the following in your ''"
    by (simp add: ascii_def)
  have l2: "ascii ''Raw METAR: '' @ ascii ''No raw data available''
              @ ascii ''\<newline>\<newline>Include the following in your ''
            = ascii ''Raw METAR: No raw data available\<newline>\<newline>Include the following in your ''"
    by (simp add: ascii_def)
  from raw_text_embedded [OF h, of "[(ascii ''station'', PyStr (ascii ''KSEA'')),
            (ascii ''raw_text'', PyStr (ascii ''KSEA 041153Z 00000KT 10SM CLR 12/08 A3012''))]" latin1_isprintable]
       raw_text_embedded [OF h, of "[]" latin1_isprintable] h l1 l2
  show ?thesis by (simp add: raw_label_def)
qed

subsection \<open>Phrases of the system instruction\<close>

lemma persona_in_base: "\<forall>p\<in>set persona_phrases. sublist (ascii p) base_prompt"
  by (simp add: persona_phrases_def base_prompt_def sublist_Cons_right)

lemma focus_metar:
  "\<exists>clause. get_system_prompt (ascii ''metar'') = base_prompt @ clause
      \<and> (\<forall>p\<in>set (focus_phrases (ascii ''metar'')). sublist (ascii p) clause)"
  by (simp add: get_system_prompt_def focus_phrases_def sublist_Cons_right)

lemma focus_taf:
  "\<exists>clause. get_system_prompt (ascii ''taf'') = base_prompt @ clause
      \<and> (\<forall>p\<in>set (focus_phrases (ascii ''taf'')). sublist (ascii p) clause)"
  by (simp add: get_system_prompt_def focus_phrases_def sublist_Cons_right)

lemma focus_pirep:
  "\<exists>clause. get_system_prompt (ascii ''pirep'') = base_prompt @ clause
      \<and> (\<forall>p\<in>set (focus_phrases (ascii ''pirep'')). sublist (ascii p) clause)"
  by (simp add: get_system_prompt_def focus_phrases_def sublist_Cons_right)

lemma focus_sigmet:
  "\<exists>clause. get_system_prompt (ascii ''sigmet'') = base_prompt @ clause
      \<and> (\<forall>p\<in>set (focus_phrases (ascii ''sigmet'')). sublist (ascii p) clause)"
  by (simp add: get_system_prompt_def focus_phrases_def sublist_Cons_right)

subsection \<open>The system instruction of the known kinds\<close>

text \<open>
  Claim C9: the system instruction is a function of the report kind alone. For each of the
  four known kinds it starts with the shared persona preamble, so it contains the three
  persona phrases, and continues with a clause that contains every focus topic of that
  kind; two different known kinds get different instructions.
\<close>

theorem system_prompt_known_kinds:
  "\<forall>kind\<in>set known_kinds.
      prefix base_prompt (get_system_prompt kind)
    \<and> (\<forall>p\<in>set persona_phrases. sublist (ascii p) (get_system_prompt kind))
    \<and> (\<exists>clause. get_system_prompt kind = base_prompt @ clause
           \<and> (\<forall>p\<in>set (focus_phrases kind). sublist (ascii p) clause))
    \<and> (\<forall>other\<in>set known_kinds. other \<noteq> kind \<longrightarrow>
           get_system_prompt other \<noteq> get_system_prompt kind)"
proof
  fix kind assume k: "kind \<in> set known_kinds"
  then consider "kind = ascii ''metar''" | "kind = ascii ''taf''"
    | "kind = ascii ''pirep''" | "kind = ascii ''sigmet''"
    by (auto simp: known_kinds_def)
  then have focus: "\<exists>clause. get_system_prompt kind = base_prompt @ clause
           \<and> (\<forall>p\<in>set (focus_phrases kind). sublist (ascii p) clause)"
  proof cases
    case 1 then show ?thesis using focus_metar by simp
  next
    case 2 then show ?thesis using focus_taf by simp
  next
    case 3 then show ?thesis using focus_pirep by simp
  next
    case 4 then show ?thesis using focus_sigmet by simp
  qed
  then obtain clause where cl: "get_system_prompt kind = base_prompt @ clause"
    by blast
  then have pre: "prefix base_prompt (get_system_prompt kind)"
    by simp
  have persona: "\<forall>p\<in>set persona_phrases. sublist (ascii p) (get_system_prompt kind)"
  proof
    fix p assume "p \<in> set persona_phrases"
    with persona_in_base have "sublist (ascii p) base_prompt" by blast
    then obtain u w where "base_prompt = u @ ascii p @ w"
      unfolding sublist_def by blast
    with cl have "get_system_prompt kind = u @ ascii p @ (w @ clause)" by simp
    then show "sublist (ascii p) (get_system_prompt kind)"
      unfolding sublist_def by blast
  qed
  have dist: "\<forall>other\<in>set known_kinds. other \<noteq> kind \<longrightarrow>
           get_system_prompt other \<noteq> get_system_prompt kind"
    using k by (auto simp: known_kinds_def get_system_prompt_def)
  from pre persona focus dist
  show "prefix base_prompt (get_system_prompt kind)
    \<and> (\<forall>p\<in>set persona_phrases. sublist (ascii p) (get_system_prompt kind))
    \<and> (\<exists>clause. get_system_prompt kind = base_prompt @ clause
           \<and> (\<forall>p\<in>set (focus_phrases kind). sublist (ascii p) clause))
    \<and> (\<forall>other\<in>set known_kinds. other \<noteq> kind \<longrightarrow>
           get_system_prompt other \<noteq> get_system_prompt kind)"
    by blast
qed

theorem system_prompt_known_kinds_witness:
  "ascii ''sigmet'' \<in> set known_kinds
   \<and> prefix base_prompt (get_system_prompt (ascii ''sigmet''))
   \<and> sublist (ascii ''expert aviation weather briefing assistant'') (get_system_prompt (ascii ''sigmet''))
   \<and> get_system_prompt (ascii ''taf'') \<noteq> get_system_prompt (ascii ''sigmet'')"
proof -
  have h: "ascii ''sigmet'' \<in> set known_kinds" by (simp add: known_kinds_def)
  have h2: "ascii ''taf'' \<in> set known_kinds" by (simp add: known_kinds_def)
  have h3: "''expert aviation weather briefing assistant'' \<in> set persona_phrases"
    by (simp add: persona_phrases_def)
  have h4: "ascii ''taf'' \<noteq> ascii ''sigmet''" by simp
  from system_prompt_known_kinds h h2 h3 h4 show ?thesis by blast
qed

subsection \<open>Kinds that are not known by name\<close>

text \<open>
  Claim C10: the dispatch compares the report type with the four lowercase names by string
  equality. For a report type that is none of them, such as \<^verbatim>\<open>METAR\<close> or \<^verbatim>\<open>Metar\<close>, the
  system instruction is the preamble with the generic clause, the user instruction is the
  generic sentence with the text of the data, and the fallback is the generic paragraph;
  none of the three equals the output of a kind-specific template, whatever data that
  template is given.
\<close>

theorem unknown_kind_generic:
  assumes "report_type \<notin> set known_kinds"
  shows "get_system_prompt report_type
           = base_prompt @ ascii ''Provide a thorough and detailed analysis of this aviation weather information focusing on all flight safety implications and operational considerations.''
       \<and> create_prompt_for_report isprintable report_type report_data
           = ascii ''Please provide a comprehensive analysis of this aviation weather information with detailed operational implications for pilots: ''
             @ repr_dict isprintable report_data
       \<and> generate_fallback_summary report_type report_data
           = ascii ''Weather information available.\<newline>\<newline>Refer to the raw data for complete details.\<newline>\<newline>Ensure thorough preflight planning.''
       \<and> (\<forall>kind\<in>set known_kinds. \<forall>d.
             get_system_prompt report_type \<noteq> get_system_prompt kind
           \<and> create_prompt_for_report isprintable report_type report_data
               \<noteq> create_prompt_for_report isprintable kind d)
       \<and> (\<forall>kind\<in>set [ascii ''metar'', ascii ''taf'', ascii ''pirep'']. \<forall>d.
             generate_fallback_summary report_type report_data \<noteq> generate_fallback_summary kind d)
       \<and> ascii ''METAR'' \<notin> set known_kinds \<and> ascii ''Metar'' \<notin> set known_kinds"
proof -
  from assms have ne: "report_type \<noteq> ascii ''metar''" "report_type \<noteq> ascii ''taf''"
      "report_type \<noteq> ascii ''pirep''" "report_type \<noteq> ascii ''sigmet''"
    by (auto simp: known_kinds_def)
  have sys: "get_system_prompt report_type
           = base_prompt @ ascii ''Provide a thorough and detailed analysis of this aviation weather information focusing on all flight safety implications and operational considerations.''"
    using ne by (simp add: get_system_prompt_def)
  have usr: "create_prompt_for_report isprintable report_type report_data
           = ascii ''Please provide a comprehensive analysis of this aviation weather information with detailed operational implications for pilots: ''
             @ repr_dict isprintable report_data"
    using ne by (simp add: create_prompt_for_report_def)
  have fb: "generate_fallback_summary report_type report_data
           = ascii ''Weather information available.\<newline>\<newline>Refer to the raw data for complete details.\<newline>\<newline>Ensure thorough preflight planning.''"
    using ne by (simp add: generate_fallback_summary_def)
  have d1: "\<forall>kind\<in>set known_kinds. \<forall>d.
             get_system_prompt report_type \<noteq> get_system_prompt kind
           \<and> create_prompt_for_report isprintable report_type report_data
               \<noteq> create_prompt_for_report isprintable kind d"
    using ne by (simp add: known_kinds_def get_system_prompt_def create_prompt_for_report_def
                           ascii_append_neq)
  have d2: "\<forall>kind\<in>set [ascii ''metar'', ascii ''taf'', ascii ''pirep'']. \<forall>d.
             generate_fallback_summary report_type report_data \<noteq> generate_fallback_summary kind d"
    using ne by (simp add: generate_fallback_summary_def ascii_neq_append)
  have ex: "ascii ''METAR'' \<notin> set known_kinds \<and> ascii ''Metar'' \<notin> set known_kinds"
    by (simp add: known_kinds_def)
  from sys usr fb d1 d2 ex show ?thesis by blast
qed

theorem unknown_kind_generic_witness:
  "ascii ''METAR'' \<notin> set known_kinds
   \<and> get_system_prompt (ascii ''METAR'')
       = base_prompt @ ascii ''Provide a thorough and detailed analysis of this aviation weather information focusing on all flight safety implications and operational considerations.''
   \<and> create_prompt_for_report latin1_isprintable (ascii ''METAR'')
         [(ascii ''station'', PyStr (ascii ''KSEA'' @ [0xA0]))]
       = ascii ''Please provide a comprehensive analysis of this aviation weather information with detailed operational implications for pilots: ''
         @ ascii ''{'' @ [39] @ ascii ''station'' @ [39] @ ascii '': ''
         @ [39] @ ascii ''KSEA'' @ [92] @ ascii ''xa0'' @ [39] @ ascii ''}''
   \<and> generate_fallback_summary (ascii ''METAR'') [(ascii ''station'', PyStr (ascii ''KSEA'' @ [0xA0]))]
       = ascii ''Weather information available.\<newline>\<newline>Refer to the raw data for complete details.\<newline>\<newline>Ensure thorough preflight planning.''"
proof -
  have h: "ascii ''METAR'' \<notin> set known_kinds" by (simp add: known_kinds_def)
  have r: "repr_dict latin1_isprintable [(ascii ''station'', PyStr (ascii ''KSEA'' @ [0xA0]))]
             = ascii ''{'' @ [39] @ ascii ''station'' @ [39] @ ascii '': ''
               @ [39] @ ascii ''KSEA'' @ [92] @ ascii ''xa0'' @ [39] @ ascii ''}''"
    by (simp add: repr_dict_def repr_str_def repr_quote_def repr_char_def hex2_def hex_digit_def
                  latin1_isprintable_def ascii_def Let_def)
  from unknown_kind_generic [OF h, of latin1_isprintable "[(ascii ''station'', PyStr (ascii ''KSEA'' @ [0xA0]))]"] h r
  show ?thesis by simp
qed

subsection \<open>An unrecognised kind with empty data\<close>

text \<open>
  Claim C7: for the report type \<^verbatim>\<open>unknown-type\<close>, or any other type that is none of the four
  names, and the empty data mapping, the user instruction is the generic sentence ending
  in \<^verbatim>\<open>{}\<close>, the text of the empty mapping, and the fallback text is the generic paragraph:
  the header \<^verbatim>\<open>Weather information available.\<close>, the referral to the raw data and the
  admonition on preflight planning.
\<close>

theorem unknown_type_empty_data:
  assumes "report_type \<notin> set known_kinds"
  shows "create_prompt_for_report isprintable report_type []
           = ascii ''Please provide a comprehensive analysis of this aviation weather information with detailed operational implications for pilots: {}''
       \<and> generate_fallback_summary report_type []
           = ascii ''Weather information available.\<newline>\<newline>Refer to the raw data for complete details.\<newline>\<newline>Ensure thorough preflight planning.''"
proof -
  from assms have ne: "report_type \<noteq> ascii ''metar''" "report_type \<noteq> ascii ''taf''"
      "report_type \<noteq> ascii ''pirep''" "report_type \<noteq> ascii ''sigmet''"
    by (auto simp: known_kinds_def)
  then show ?thesis
    by (simp add: create_prompt_for_report_def generate_fallback_summary_def repr_dict_def
                  ascii_append [symmetric])
qed

theorem unknown_type_empty_data_witness:
  "ascii ''unknown-type'' \<notin> set known_kinds
   \<and> create_prompt_for_report latin1_isprintable (ascii ''unknown-type'') []
       = ascii ''Please provide a comprehensive analysis of this aviation weather information with detailed operational implications for pilots: {}''
   \<and> generate_fallback_summary (ascii ''unknown-type'') []
       = ascii ''Weather information available.\<newline>\<newline>Refer to the raw data for complete details.\<newline>\<newline>Ensure thorough preflight planning.''"
proof -
  have h: "ascii ''unknown-type'' \<notin> set known_kinds" by (simp add: known_kinds_def)
  from unknown_type_empty_data [OF h] h show ?thesis by simp
qed

end
